theory Spec2Isabelle
  imports Complex_Main "HOL-Library.Stream" "HOL-Library.Signed_Division"
begin

section \<open>Data model (types.ts)\<close>

datatype Direction = UP | DOWN | LEFT | RIGHT

datatype GameStatus = MENU | PLAYING | GAME_OVER

text \<open>
  A grid cell. The coordinates are JavaScript numbers; every value the controller stores is
  obtained from \<open>Math.floor\<close> results by adding or subtracting one, so they are integers.
\<close>

record Point =
  x :: int
  y :: int

text \<open>The fields of a score entry are \<open>gameId\<close>, \<open>score\<close> and \<open>level\<close> in the source.\<close>

record ScoreEntry =
  gameId :: int
  entry_score :: int
  entry_level :: int

text \<open>The board size in pixels (\<open>boardSize\<close> of App.tsx).\<close>

record BoardSize =
  width :: int
  height :: int

text \<open>
  Values as \<open>JSON.parse\<close> produces them. A theme at run time is such an object: the
  interface \<open>GameTheme\<close> is erased by the compiler, and the cast in
  \<open>generateLevelTheme\<close> checks nothing. The properties of an object are kept in
  insertion order.
\<close>

datatype jsvalue =
    JNull
  | JBool bool
  | JNum real
  | JStr string
  | JArr "jsvalue list"
  | JObj "(string \<times> jsvalue) list"

section \<open>Theme provider (services/geminiService.ts)\<close>

definition DEFAULT_THEME :: jsvalue where
  "DEFAULT_THEME = JObj
     [(''name'', JStr ''Neon Genesis''),
      (''gridColor'', JStr ''#1f2937''),
      (''snakeHeadColor'', JStr ''#00ffcc''),
      (''snakeBodyColor'', JStr ''#00ccaa''),
      (''foodColor'', JStr ''#ff00ff''),
      (''backgroundColor'', JStr ''#000000''),
      (''glowColor'', JStr ''rgba(0, 255, 204, 0.5)''),
      (''storyText'', JStr ''System initialized. Grid online. Consume energy nodes to survive.'')]"

section \<open>Simulation controller (App.tsx)\<close>

definition GRID_SIZE :: int where
  "GRID_SIZE = 20"

definition INITIAL_SPEED :: int where
  "INITIAL_SPEED = 250"

text \<open>
  The component's state: the \<open>useState\<close> cells and the refs that the game logic reads
  and writes. The timer handle, the audio context and the vision-mode flag carry no game
  logic and are left out.
\<close>

record App =
  status :: GameStatus
  snake :: "Point list"
  food :: Point
  direction :: Direction
  score :: int
  level :: int
  theme :: jsvalue
  boardSize :: BoardSize
  history :: "ScoreEntry list"
  gameCount :: int
  directionRef :: Direction
  nextDirectionRef :: Direction
  speedRef :: int

text \<open>
  The callbacks are built by \<open>useCallback\<close> and read some state through the closure of
  the render that built them: \<open>gameTick\<close> captures \<open>food\<close>, the grid counts and
  \<open>generateFood\<close> (which captures \<open>boardSize\<close>); \<open>gameOver\<close> captures \<open>score\<close>,
  \<open>level\<close> and \<open>gameCount\<close>. Everything else goes through refs or functional updaters
  and is read live. The captured values are an explicit argument of the model.
\<close>

record Render =
  r_food :: Point
  r_score :: int
  r_level :: int
  r_gameCount :: int
  r_boardSize :: BoardSize

text \<open>The closure of the render of the current state.\<close>

definition render :: "App \<Rightarrow> Render" where
  "render s = \<lparr>r_food = food s, r_score = score s, r_level = level s,
                r_gameCount = gameCount s, r_boardSize = boardSize s\<rparr>"

text \<open>\<open>Math.floor(boardSize.width / GRID_SIZE)\<close>; \<open>div\<close> on \<open>int\<close> rounds down.\<close>

definition gridCountX :: "Render \<Rightarrow> int" where
  "gridCountX r = width (r_boardSize r) div GRID_SIZE"

definition gridCountY :: "Render \<Rightarrow> int" where
  "gridCountY r = height (r_boardSize r) div GRID_SIZE"

definition initialApp :: App where
  "initialApp =
     \<lparr>status = MENU, snake = [\<lparr>x = 10, y = 10\<rparr>], food = \<lparr>x = 15, y = 5\<rparr>,
      direction = RIGHT, score = 0, level = 1, theme = DEFAULT_THEME,
      boardSize = \<lparr>width = 600, height = 400\<rparr>, history = [], gameCount = 0,
      directionRef = RIGHT, nextDirectionRef = RIGHT, speedRef = INITIAL_SPEED\<rparr>"

subsection \<open>Food placement\<close>

text \<open>\<open>currentSnake.some(segment => segment.x === p.x && segment.y === p.y)\<close>\<close>

definition occupies :: "Point list \<Rightarrow> Point \<Rightarrow> bool" where
  "occupies currentSnake p = list_ex (\<lambda>segment. x segment = x p \<and> y segment = y p) currentSnake"

definition margin :: int where
  "margin = 2"

text \<open>
  The do-while loop of \<open>generateFood\<close>. The results of \<open>Math.random()\<close> are an infinite
  stream; each round takes two of them. The loop has no bound: when no round ever finds a
  free cell the function does not return, which is the value \<open>None\<close>.
\<close>

partial_function (option) generateFood_loop ::
  "int \<Rightarrow> int \<Rightarrow> Point list \<Rightarrow> real stream \<Rightarrow> (Point \<times> real stream) option" where
  "generateFood_loop availableX availableY currentSnake rs =
     (let newFood = \<lparr>x = \<lfloor>shd rs * of_int availableX\<rfloor> + margin,
                     y = \<lfloor>shd (stl rs) * of_int availableY\<rfloor> + margin\<rparr>;
          isCollision = occupies currentSnake newFood
      in if isCollision then generateFood_loop availableX availableY currentSnake (stl (stl rs))
         else Some (newFood, stl (stl rs)))"

declare generateFood_loop.simps [code]

definition generateFood ::
  "BoardSize \<Rightarrow> Point list \<Rightarrow> real stream \<Rightarrow> (Point \<times> real stream) option" where
  "generateFood bs currentSnake rs =
     (let maxX = width bs div GRID_SIZE;
          maxY = height bs div GRID_SIZE;
          availableX = max 1 (maxX - margin * 2);
          availableY = max 1 (maxY - margin * 2)
      in generateFood_loop availableX availableY currentSnake rs)"

subsection \<open>Game over, reset and direction input\<close>

text \<open>
  \<open>gameOver\<close>: the entry appended to the history is built from the captured score, level
  and game count; \<open>slice(-10)\<close> keeps the last ten entries.
\<close>

definition gameOver :: "Render \<Rightarrow> App \<Rightarrow> App" where
  "gameOver r s =
     (let entries = history s @
            [\<lparr>gameId = r_gameCount r + 1, entry_score = r_score r, entry_level = r_level r\<rparr>]
      in s\<lparr>status := GAME_OVER,
            history := drop (length entries - 10) entries,
            gameCount := gameCount s + 1\<rparr>)"

text \<open>\<open>resetGame\<close> does not return when the food placement does not.\<close>

definition resetGame :: "Render \<Rightarrow> App \<Rightarrow> real stream \<Rightarrow> (App \<times> real stream) option" where
  "resetGame r s rs =
     (let startX = gridCountX r div 2;
          startY = gridCountY r div 2;
          initialSnake = [\<lparr>x = startX, y = startY\<rparr>,
                          \<lparr>x = startX - 1, y = startY\<rparr>,
                          \<lparr>x = startX - 2, y = startY\<rparr>]
      in case generateFood (r_boardSize r) initialSnake rs of
           None \<Rightarrow> None
         | Some (newFood, rs') \<Rightarrow>
             Some (s\<lparr>snake := initialSnake, food := newFood, score := 0, level := 1,
                     speedRef := INITIAL_SPEED, direction := RIGHT, directionRef := RIGHT,
                     nextDirectionRef := RIGHT, theme := DEFAULT_THEME, status := PLAYING\<rparr>,
                   rs'))"

definition handleDirectionChange :: "Direction \<Rightarrow> App \<Rightarrow> App" where
  "handleDirectionChange newDir s =
     (let current = directionRef s
      in if newDir = UP \<and> current = DOWN then s
         else if newDir = DOWN \<and> current = UP then s
         else if newDir = LEFT \<and> current = RIGHT then s
         else if newDir = RIGHT \<and> current = LEFT then s
         else s\<lparr>nextDirectionRef := newDir\<rparr>)"

subsection \<open>The tick\<close>

text \<open>The \<open>switch\<close> of \<open>gameTick\<close>: a copy of the head moved one cell.\<close>

fun moveHead :: "Direction \<Rightarrow> Point \<Rightarrow> Point" where
  "moveHead UP head = head\<lparr>y := y head - 1\<rparr>"
| "moveHead DOWN head = head\<lparr>y := y head + 1\<rparr>"
| "moveHead LEFT head = head\<lparr>x := x head - 1\<rparr>"
| "moveHead RIGHT head = head\<lparr>x := x head + 1\<rparr>"

text \<open>The wall test of \<open>gameTick\<close>.\<close>

definition hitsWall :: "Render \<Rightarrow> Point \<Rightarrow> bool" where
  "hitsWall r newHead \<longleftrightarrow>
     x newHead < 0 \<or> x newHead \<ge> gridCountX r \<or> y newHead < 0 \<or> y newHead \<ge> gridCountY r"

text \<open>
  One tick. The buffered direction is committed before anything else. With an empty snake
  \<open>prevSnake[0]\<close> is \<open>undefined\<close>, the copied head has no coordinates, the moved
  coordinate is \<open>NaN\<close>, every comparison is false, and the one-element array is popped
  again: the snake stays empty and nothing else happens. \<open>%\<close> is the truncating
  remainder. The tick does not return when food is eaten and the placement does not return.
\<close>

definition gameTick :: "Render \<Rightarrow> App \<Rightarrow> real stream \<Rightarrow> (App \<times> real stream) option" where
  "gameTick r s rs =
     (let currentDir = nextDirectionRef s;
          s1 = s\<lparr>directionRef := currentDir, direction := currentDir\<rparr>;
          prevSnake = snake s
      in case prevSnake of
           [] \<Rightarrow> Some (s1, rs)
         | head # _ \<Rightarrow>
             (let newHead = moveHead currentDir head
              in if hitsWall r newHead then Some (gameOver r s1, rs)
                 else if occupies prevSnake newHead then Some (gameOver r s1, rs)
                 else
                   (let newSnake = newHead # prevSnake
                    in if x newHead = x (r_food r) \<and> y newHead = y (r_food r) then
                         (case generateFood (r_boardSize r) newSnake rs of
                            None \<Rightarrow> None
                          | Some (newFood, rs') \<Rightarrow>
                              (let newScore = score s1 + 10
                               in Some (s1\<lparr>snake := newSnake,
                                           score := newScore,
                                           level := (if newScore smod 50 = 0 then level s1 + 1
                                                     else level s1),
                                           food := newFood\<rparr>, rs')))
                       else Some (s1\<lparr>snake := butlast newSnake\<rparr>, rs))))"

section \<open>Gesture classifier (services/visionService.ts)\<close>

text \<open>
  A hand landmark in normalised image coordinates (fields \<open>x\<close> and \<open>y\<close> in the source;
  the depth is not read). The coordinates are doubles; the model computes with real numbers,
  so the one rounding of the subtraction is not modelled. Comparisons and \<open>Math.abs\<close>
  are exact on doubles.
\<close>

record NormalizedLandmark =
  lm_x :: real
  lm_y :: real

definition SENSITIVITY :: real where
  "SENSITIVITY = 8 / 100"

text \<open>The branch structure of \<open>detectGesture\<close> once wrist and index tip are read.\<close>

definition classify :: "NormalizedLandmark \<Rightarrow> NormalizedLandmark \<Rightarrow> Direction option" where
  "classify wrist indexTip =
     (let deltaX = lm_x indexTip - lm_x wrist;
          deltaY = lm_y indexTip - lm_y wrist
      in if \<bar>deltaX\<bar> > \<bar>deltaY\<bar> then
           (if \<bar>deltaX\<bar> > SENSITIVITY then
              Some (if deltaX < - SENSITIVITY then RIGHT else LEFT)
            else None)
         else
           (if \<bar>deltaY\<bar> > SENSITIVITY then
              Some (if deltaY < - SENSITIVITY then UP else DOWN)
            else None))"

text \<open>
  The module state: whether the landmarker is loaded, and the time of the last frame.
\<close>

record Vision =
  handLandmarker :: bool
  lastVideoTime :: real

datatype TypeError = TypeError

text \<open>
  \<open>detectGesture\<close>, given the video's current time and the landmarks the detector reports
  for the frame (\<open>None\<close> when the field is absent). Reading \<open>.x\<close> of a missing
  landmark throws.
\<close>

definition detectGesture ::
  "Vision \<Rightarrow> real \<Rightarrow> NormalizedLandmark list list option
     \<Rightarrow> TypeError + (Direction option \<times> Vision)" where
  "detectGesture v currentTime results =
     (if \<not> handLandmarker v \<or> currentTime = lastVideoTime v then Inr (None, v)
      else
        (let v' = v\<lparr>lastVideoTime := currentTime\<rparr>
         in case results of
              None \<Rightarrow> Inr (None, v')
            | Some hands \<Rightarrow>
                (case hands of
                   [] \<Rightarrow> Inr (None, v')
                 | landmarks # _ \<Rightarrow>
                     if length landmarks \<le> 8 then Inl TypeError
                     else Inr (classify (landmarks ! 0) (landmarks ! 8), v'))))"

section \<open>Theme provider, continued\<close>

text \<open>A number in a template literal: the decimal digits of an integer.\<close>

fun digits :: "nat \<Rightarrow> string" where
  "digits n = (if n < 10 then [''0123456789'' ! n]
               else digits (n div 10) @ [''0123456789'' ! (n mod 10)])"

definition numberToString :: "int \<Rightarrow> string" where
  "numberToString n = (if n < 0 then ''-'' @ digits (nat (- n)) else digits (nat n))"

text \<open>
  What awaiting \<open>generateContent\<close> gives: the promise rejects (or reading the response
  throws, which the same \<open>catch\<close> handles), or it resolves to a response whose
  \<open>text\<close> is a string or \<open>undefined\<close>.
\<close>

datatype GenerateContent = Rejects | Resolves "string option"

text \<open>An object spread followed by a property: the property keeps its place when present.\<close>

fun setProperty :: "string \<Rightarrow> jsvalue \<Rightarrow> jsvalue \<Rightarrow> jsvalue" where
  "setProperty k v (JObj ps) =
     JObj (if k \<in> fst ` set ps then map (\<lambda>(k', v'). if k' = k then (k', v) else (k', v')) ps
           else ps @ [(k, v)])"
| "setProperty k v other = JObj [(k, v)]"

text \<open>
  \<open>generateLevelTheme\<close>. \<open>JSON.parse\<close> is the platform's: it is a parameter, a partial
  map that is undefined where the parser throws. The previous theme's name goes into the
  prompt only. The empty string is falsy.
\<close>

definition generateLevelTheme ::
  "(string \<rightharpoonup> jsvalue) \<Rightarrow> int \<Rightarrow> string \<Rightarrow> GenerateContent \<Rightarrow> jsvalue" where
  "generateLevelTheme JSON_parse lvl previousThemeName response =
     (let offline =
            setProperty ''storyText'' (JStr ''Uplink failed. Running local simulation.'')
              (setProperty ''name'' (JStr (''Level '' @ numberToString lvl @ '' (Offline Mode)''))
                 DEFAULT_THEME)
      in case response of
           Rejects \<Rightarrow> offline
         | Resolves text \<Rightarrow>
             (case text of
                None \<Rightarrow> DEFAULT_THEME
              | Some t \<Rightarrow>
                  if t = [] then DEFAULT_THEME
                  else (case JSON_parse t of None \<Rightarrow> offline | Some parsed \<Rightarrow> parsed)))"

section \<open>Notions used to state the properties\<close>

text \<open>The reverse of a direction, as the four guards of \<open>handleDirectionChange\<close> pair them.\<close>

fun opposite :: "Direction \<Rightarrow> Direction" where
  "opposite UP = DOWN"
| "opposite DOWN = UP"
| "opposite LEFT = RIGHT"
| "opposite RIGHT = LEFT"

text \<open>The cell that round \<open>k\<close> of the food placement draws from the random stream.\<close>

definition draw :: "int \<Rightarrow> int \<Rightarrow> real stream \<Rightarrow> nat \<Rightarrow> Point" where
  "draw availableX availableY rs k =
     \<lparr>x = \<lfloor>rs !! (2 * k) * of_int availableX\<rfloor> + margin,
      y = \<lfloor>rs !! (2 * k + 1) * of_int availableY\<rfloor> + margin\<rparr>"

text \<open>
  The states the component can be in: it starts in \<open>initialApp\<close>; the buttons call
  \<open>resetGame\<close>, keys and gestures call \<open>handleDirectionChange\<close>, the timer calls
  \<open>gameTick\<close> (with the closure of any render), a window resize replaces the board size
  and a resolved theme request replaces the theme.
\<close>

inductive reachable :: "App \<Rightarrow> bool" where
  init: "reachable initialApp"
| reset: "reachable s \<Longrightarrow> resetGame r s rs = Some (s', rs') \<Longrightarrow> reachable s'"
| input: "reachable s \<Longrightarrow> reachable (handleDirectionChange newDir s)"
| tick: "reachable s \<Longrightarrow> gameTick r s rs = Some (s', rs') \<Longrightarrow> reachable s'"
| resize: "reachable s \<Longrightarrow> reachable (s\<lparr>boardSize := bs\<rparr>)"
| retheme: "reachable s \<Longrightarrow> reachable (s\<lparr>theme := t\<rparr>)"

text \<open>A run-time value has all eight string fields of \<open>GameTheme\<close>.\<close>

fun hasStringField :: "jsvalue \<Rightarrow> string \<Rightarrow> bool" where
  "hasStringField (JObj ps) k = (case map_of ps k of Some (JStr _) \<Rightarrow> True | _ \<Rightarrow> False)"
| "hasStringField other k = False"

definition completeTheme :: "jsvalue \<Rightarrow> bool" where
  "completeTheme v =
     list_all (hasStringField v)
       [''name'', ''gridColor'', ''snakeHeadColor'', ''snakeBodyColor'', ''foodColor'',
        ''backgroundColor'', ''glowColor'', ''storyText'']"

text \<open>The property of an object, \<open>undefined\<close> as \<open>None\<close>.\<close>

fun property :: "jsvalue \<Rightarrow> string \<Rightarrow> jsvalue option" where
  "property (JObj ps) k = map_of ps k"
| "property other k = None"

text \<open>
  Example states. \<open>heading d sn\<close> is a running game on the initial 600 by 400 board
  with the snake \<open>sn\<close>, committed and buffered direction \<open>d\<close> and the food at (2, 2),
  where a random stream of zeros puts it. \<open>scenario\<close> is the scenario of the
  specification: the snake heads right and the food is the next cell. In \<open>topRow\<close> the
  snake runs right along the top row and the player has asked to turn up.
\<close>

definition heading :: "Direction \<Rightarrow> Point list \<Rightarrow> App" where
  "heading d sn = initialApp
     \<lparr>status := PLAYING, snake := sn, food := \<lparr>x = 2, y = 2\<rparr>,
      direction := d, directionRef := d, nextDirectionRef := d\<rparr>"

definition scenario :: App where
  "scenario = initialApp
     \<lparr>status := PLAYING,
      snake := [\<lparr>x = 10, y = 10\<rparr>, \<lparr>x = 9, y = 10\<rparr>, \<lparr>x = 8, y = 10\<rparr>],
      food := \<lparr>x = 11, y = 10\<rparr>\<rparr>"

definition topRow :: App where
  "topRow = (heading RIGHT [\<lparr>x = 16, y = 0\<rparr>, \<lparr>x = 15, y = 0\<rparr>, \<lparr>x = 15, y = 1\<rparr>])
     \<lparr>nextDirectionRef := UP\<rparr>"





section \<open>Auxiliary facts\<close>

lemma same_cell_iff: "(x segment = x p \<and> y segment = y p) \<longleftrightarrow> segment = (p::Point)"
  by (cases segment, cases p) auto

lemma occupies_iff: "occupies currentSnake p \<longleftrightarrow> p \<in> set currentSnake"
  by (simp add: occupies_def list_ex_iff same_cell_iff)

text \<open>The truncating remainder is zero exactly on the multiples.\<close>

lemma smod_50: "(a::int) smod 50 = 0 \<longleftrightarrow> 50 dvd a"
  by (auto simp: signed_modulo_int_def sgn_if)

text \<open>Whatever the loop returns is a free cell.\<close>

lemma generateFood_loop_free:
  assumes "generateFood_loop ax ay sn rs = Some res"
  shows "\<not> occupies sn (fst res)"
proof (rule generateFood_loop.raw_induct
    [where P = "\<lambda>_ _ sn _ res. \<not> occupies sn (fst res)", OF _ assms])
  fix loop :: "int \<Rightarrow> int \<Rightarrow> Point list \<Rightarrow> real stream \<Rightarrow> (Point \<times> real stream) option"
    and ax ay :: int and sn :: "Point list" and rs :: "real stream"
    and res :: "Point \<times> real stream"
  assume IH: "\<And>ax ay sn rs res. loop ax ay sn rs = Some res \<Longrightarrow> \<not> occupies sn (fst res)"
    and body: "(let newFood = \<lparr>x = \<lfloor>shd rs * of_int ax\<rfloor> + margin,
                     y = \<lfloor>shd (stl rs) * of_int ay\<rfloor> + margin\<rparr>;
          isCollision = occupies sn newFood
      in if isCollision then loop ax ay sn (stl (stl rs))
         else Some (newFood, stl (stl rs))) = Some res"
  show "\<not> occupies sn (fst res)"
    using IH body by (auto simp: Let_def split: if_splits)
qed

text \<open>The loop returns as soon as some round draws a free cell.\<close>

lemma generateFood_loop_returns:
  "\<not> occupies sn (draw ax ay rs k) \<Longrightarrow> \<exists>res. generateFood_loop ax ay sn rs = Some res"
proof (induction k arbitrary: rs)
  case 0
  then show ?case
    by (subst generateFood_loop.simps) (simp add: draw_def Let_def)
next
  case (Suc k)
  have "draw ax ay (stl (stl rs)) k = draw ax ay rs (Suc k)"
    by (simp add: draw_def)
  with Suc.prems have "\<not> occupies sn (draw ax ay (stl (stl rs)) k)" by simp
  from Suc.IH [OF this] obtain res where "generateFood_loop ax ay sn (stl (stl rs)) = Some res" ..
  then show ?case
    by (subst generateFood_loop.simps) (simp add: Let_def)
qed

text \<open>On the initial 600 by 400 board, a stream of zeros draws the cell (2, 2).\<close>

lemma generateFood_zero:
  "generateFood \<lparr>width = 600, height = 400\<rparr> sn (sconst 0) =
     (if occupies sn \<lparr>x = 2, y = 2\<rparr>
      then generateFood \<lparr>width = 600, height = 400\<rparr> sn (sconst 0)
      else Some (\<lparr>x = 2, y = 2\<rparr>, sconst 0))"
  unfolding generateFood_def Let_def
  by (subst generateFood_loop.simps) (simp add: margin_def)

lemmas tick_defs = gameTick_def render_def hitsWall_def gridCountX_def gridCountY_def
  GRID_SIZE_def occupies_def gameOver_def initialApp_def scenario_def topRow_def
  heading_def

text \<open>The end-to-end scenario: the food is eaten, the score is 10, the level stays.\<close>

lemma scenario_tick:
  "gameTick (render scenario) scenario (sconst 0) =
     Some (scenario
             \<lparr>snake := [\<lparr>x = 11, y = 10\<rparr>, \<lparr>x = 10, y = 10\<rparr>, \<lparr>x = 9, y = 10\<rparr>, \<lparr>x = 8, y = 10\<rparr>],
              score := 10, food := \<lparr>x = 2, y = 2\<rparr>\<rparr>, sconst 0)"
  apply (simp add: tick_defs)
  apply (subst generateFood_zero)
  apply (simp add: occupies_def signed_modulo_int_def)
  done

lemma topRow_tick:
  "gameTick (render topRow) topRow (sconst 0) =
     Some (topRow\<lparr>status := GAME_OVER, direction := UP, directionRef := UP,
                   history := [\<lparr>gameId = 1, entry_score = 0, entry_level = 1\<rparr>],
                   gameCount := 1\<rparr>, sconst 0)"
  by (simp add: tick_defs)

subsection \<open>The top-row state is reachable\<close>

text \<open>
  From the initial state: reset, turn up, ten ticks up the column to the top row, turn
  right, one tick, and the request to turn up.
\<close>

lemma reset_heading:
  "resetGame (render initialApp) initialApp (sconst 0) =
     Some (heading RIGHT [\<lparr>x = 15, y = 10\<rparr>, \<lparr>x = 14, y = 10\<rparr>, \<lparr>x = 13, y = 10\<rparr>], sconst 0)"
  apply (simp add: resetGame_def tick_defs heading_def)
  apply (subst generateFood_zero)
  apply (simp add: occupies_def INITIAL_SPEED_def)
  done

lemma turn_heading:
  "d' \<noteq> opposite d \<Longrightarrow> handleDirectionChange d' (heading d sn) = (heading d sn)\<lparr>nextDirectionRef := d'\<rparr>"
  by (cases d; cases d') (simp_all add: handleDirectionChange_def heading_def)

lemma move_heading:
  assumes "\<not> hitsWall (render (heading d (h # t))) (moveHead d' h)"
    and "moveHead d' h \<notin> set (h # t)" and "moveHead d' h \<noteq> \<lparr>x = 2, y = 2\<rparr>"
  shows "gameTick (render (heading d (h # t))) ((heading d (h # t))\<lparr>nextDirectionRef := d'\<rparr>) rs
           = Some (heading d' (moveHead d' h # butlast (h # t)), rs)"
  using assms
  by (auto simp: gameTick_def Let_def occupies_iff same_cell_iff heading_def render_def hitsWall_def
      gridCountX_def gridCountY_def)

lemma hitsWall_heading:
  "hitsWall (render (heading d sn)) p \<longleftrightarrow> x p < 0 \<or> x p \<ge> 30 \<or> y p < 0 \<or> y p \<ge> 20"
  by (simp add: hitsWall_def render_def heading_def initialApp_def gridCountX_def gridCountY_def GRID_SIZE_def)

lemma step_heading:
  assumes "reachable (heading d (h # t))" and "d' \<noteq> opposite d"
    and "\<not> (x (moveHead d' h) < 0 \<or> x (moveHead d' h) \<ge> 30 \<or> y (moveHead d' h) < 0 \<or> y (moveHead d' h) \<ge> 20)"
    and "moveHead d' h \<notin> set (h # t)" and "moveHead d' h \<noteq> \<lparr>x = 2, y = 2\<rparr>"
  shows "reachable (heading d' (moveHead d' h # butlast (h # t)))"
proof -
  have "reachable (handleDirectionChange d' (heading d (h # t)))"
    using assms(1) by (rule reachable.input)
  then have "reachable ((heading d (h # t))\<lparr>nextDirectionRef := d'\<rparr>)"
    by (simp add: turn_heading [OF assms(2)])
  moreover have "gameTick (render (heading d (h # t))) ((heading d (h # t))\<lparr>nextDirectionRef := d'\<rparr>) (sconst 0)
           = Some (heading d' (moveHead d' h # butlast (h # t)), sconst 0)"
    using assms(3-5) by (intro move_heading) (simp_all add: hitsWall_heading)
  ultimately show ?thesis by (rule reachable.tick)
qed

lemma reachable_up:
  assumes "reachable (heading d [\<lparr>x = 15, y = k\<rparr>, p, q])" and "0 < k" and "k \<le> 10" and "d \<noteq> DOWN"
    and "\<lparr>x = 15, y = k - 1\<rparr> \<noteq> p" "\<lparr>x = 15, y = k - 1\<rparr> \<noteq> q"
  shows "reachable (heading UP [\<lparr>x = 15, y = k - 1\<rparr>, \<lparr>x = 15, y = k\<rparr>, p])"
  using step_heading [OF assms(1), of UP] assms(2-) by (cases d) auto

lemma reachable_topRow: "reachable topRow"
proof -
  have "reachable (heading RIGHT [\<lparr>x = 15, y = 10\<rparr>, \<lparr>x = 14, y = 10\<rparr>, \<lparr>x = 13, y = 10\<rparr>])"
    using reachable.init reset_heading by (rule reachable.reset)
  from reachable_up [OF this] have "reachable (heading UP [\<lparr>x = 15, y = 9\<rparr>, \<lparr>x = 15, y = 10\<rparr>, \<lparr>x = 14, y = 10\<rparr>])" by simp
  from reachable_up [OF this] have "reachable (heading UP [\<lparr>x = 15, y = 8\<rparr>, \<lparr>x = 15, y = 9\<rparr>, \<lparr>x = 15, y = 10\<rparr>])" by simp
  from reachable_up [OF this] have "reachable (heading UP [\<lparr>x = 15, y = 7\<rparr>, \<lparr>x = 15, y = 8\<rparr>, \<lparr>x = 15, y = 9\<rparr>])" by simp
  from reachable_up [OF this] have "reachable (heading UP [\<lparr>x = 15, y = 6\<rparr>, \<lparr>x = 15, y = 7\<rparr>, \<lparr>x = 15, y = 8\<rparr>])" by simp
  from reachable_up [OF this] have "reachable (heading UP [\<lparr>x = 15, y = 5\<rparr>, \<lparr>x = 15, y = 6\<rparr>, \<lparr>x = 15, y = 7\<rparr>])" by simp
  from reachable_up [OF this] have "reachable (heading UP [\<lparr>x = 15, y = 4\<rparr>, \<lparr>x = 15, y = 5\<rparr>, \<lparr>x = 15, y = 6\<rparr>])" by simp
  from reachable_up [OF this] have "reachable (heading UP [\<lparr>x = 15, y = 3\<rparr>, \<lparr>x = 15, y = 4\<rparr>, \<lparr>x = 15, y = 5\<rparr>])" by simp
  from reachable_up [OF this] have "reachable (heading UP [\<lparr>x = 15, y = 2\<rparr>, \<lparr>x = 15, y = 3\<rparr>, \<lparr>x = 15, y = 4\<rparr>])" by simp
  from reachable_up [OF this] have "reachable (heading UP [\<lparr>x = 15, y = 1\<rparr>, \<lparr>x = 15, y = 2\<rparr>, \<lparr>x = 15, y = 3\<rparr>])" by simp
  from reachable_up [OF this] have "reachable (heading UP [\<lparr>x = 15, y = 0\<rparr>, \<lparr>x = 15, y = 1\<rparr>, \<lparr>x = 15, y = 2\<rparr>])" by simp
  from step_heading [OF this, of RIGHT]
  have "reachable (heading RIGHT [\<lparr>x = 16, y = 0\<rparr>, \<lparr>x = 15, y = 0\<rparr>, \<lparr>x = 15, y = 1\<rparr>])" by simp
  then have "reachable (handleDirectionChange UP (heading RIGHT [\<lparr>x = 16, y = 0\<rparr>, \<lparr>x = 15, y = 0\<rparr>, \<lparr>x = 15, y = 1\<rparr>]))"
    by (rule reachable.input)
  then show ?thesis by (simp add: turn_heading topRow_def)
qed

section \<open>Properties of the tick\<close>



text \<open>
  Only the food placement can keep a tick from returning: a tick that collides or does not
  eat returns, and a tick that eats returns as soon as the placement does.
\<close>

lemma gameTick_returns:
  assumes "snake s = head # rest"
    and "hitsWall r (moveHead (nextDirectionRef s) head)
         \<or> moveHead (nextDirectionRef s) head \<in> set (snake s)
         \<or> moveHead (nextDirectionRef s) head \<noteq> r_food r
         \<or> (\<exists>res. generateFood (r_boardSize r) (moveHead (nextDirectionRef s) head # snake s) rs
                      = Some res)"
  shows "\<exists>res. gameTick r s rs = Some res"
  using assms
  by (auto simp: gameTick_def Let_def occupies_iff same_cell_iff)

text \<open>
  The length of the snake after a tick that runs with the closure of the current render
  (the captured food is the food before the tick): one longer when the tick does not end
  the game and the new head is the food, unchanged otherwise.
\<close>

lemma gameTick_length_in_sync:
  assumes "gameTick r s rs = Some (s', rs')" and "snake s = head # rest"
    and "r_food r = food s" and "status s \<noteq> GAME_OVER"
  shows "(status s' \<noteq> GAME_OVER \<longrightarrow>
            length (snake s') = (if moveHead (nextDirectionRef s) head = food s
                                 then length (snake s) + 1 else length (snake s)))
       \<and> (status s' = GAME_OVER \<longrightarrow> length (snake s') = length (snake s))"
  using assms
  by (auto simp: gameTick_def Let_def gameOver_def same_cell_iff
           split: option.splits prod.splits if_splits)

subsection \<open>A tick with the closure of an earlier render\<close>

text \<open>
  \<open>gameTick\<close> compares the new head with the food its closure captured. The game-loop
  effect replaces the interval whenever \<open>gameTick\<close> is rebuilt, and clears the old one
  in its cleanup. The level effect also starts an interval on a level-up; the game-loop
  effect, which runs after it, then stores its own interval in the same ref without
  clearing that one. The interval of the level effect is never cleared and goes on calling
  the \<open>gameTick\<close> of the level-up render.

  The run below reaches the level-up with five meals in a row, eats once more, and then
  takes a tick with the closure of the level-up render.
\<close>









section \<open>Direction handling and collisions\<close>

lemma handleDirectionChange_fields:
  "directionRef (handleDirectionChange newDir s) = directionRef s"
  "direction (handleDirectionChange newDir s) = direction s"
  "snake (handleDirectionChange newDir s) = snake s"
  by (simp_all add: handleDirectionChange_def Let_def)

lemma handleDirectionChange_buffer:
  "nextDirectionRef (handleDirectionChange newDir s) =
     (if newDir = opposite (directionRef s) then nextDirectionRef s else newDir)"
  by (cases newDir; cases "directionRef s") (simp_all add: handleDirectionChange_def)

lemma gameTick_directions:
  assumes "gameTick r s rs = Some (s', rs')"
  shows "directionRef s' = nextDirectionRef s \<and> direction s' = nextDirectionRef s
         \<and> nextDirectionRef s' = nextDirectionRef s"
  using assms
  by (auto simp: gameTick_def Let_def gameOver_def
           split: list.splits option.splits prod.splits if_splits)

lemma opposite_neq: "d \<noteq> opposite d" "opposite d \<noteq> d"
  by (cases d; simp)+

lemma resetGame_fields:
  assumes "resetGame r s rs = Some (s', rs')"
  shows "directionRef s' = RIGHT \<and> nextDirectionRef s' = RIGHT \<and> direction s' = RIGHT
         \<and> length (snake s') = 3 \<and> status s' = PLAYING \<and> score s' = 0 \<and> level s' = 1"
  using assms
  by (auto simp: resetGame_def Let_def split: option.splits prod.splits)

lemma reachable_directions:
  "reachable s \<Longrightarrow> nextDirectionRef s \<noteq> opposite (directionRef s) \<and> direction s = directionRef s"
proof (induction rule: reachable.induct)
  case init
  show ?case by (simp add: initialApp_def)
next
  case (reset s r rs s' rs')
  then show ?case by (auto dest: resetGame_fields)
next
  case (input s newDir)
  then show ?case by (simp add: handleDirectionChange_fields handleDirectionChange_buffer)
next
  case (tick s r rs s' rs')
  then show ?case by (auto dest!: gameTick_directions simp: opposite_neq)
next
  case (resize s bs)
  then show ?case by simp
next
  case (retheme s t)
  then show ?case by simp
qed

text \<open>
  C3. Submitting the exact opposite of the committed direction \<open>D\<close> leaves the buffered
  direction as it was; and in every reachable state the tick that follows commits a
  direction that is not the reverse of \<open>D\<close>.
\<close>

theorem anti_reversal:
  "nextDirectionRef (handleDirectionChange (opposite (directionRef s)) s) = nextDirectionRef s
   \<and> (reachable s \<longrightarrow>
        gameTick r (handleDirectionChange (opposite (directionRef s)) s) rs = Some (s', rs') \<longrightarrow>
        directionRef s' \<noteq> opposite (directionRef s) \<and> direction s' \<noteq> opposite (directionRef s))"
proof -
  have buf: "nextDirectionRef (handleDirectionChange (opposite (directionRef s)) s) = nextDirectionRef s"
    by (simp add: handleDirectionChange_buffer)
  moreover have "directionRef s' \<noteq> opposite (directionRef s) \<and> direction s' \<noteq> opposite (directionRef s)"
    if "reachable s"
      and "gameTick r (handleDirectionChange (opposite (directionRef s)) s) rs = Some (s', rs')"
    using reachable_directions [OF that(1)] gameTick_directions [OF that(2)] buf by simp
  ultimately show ?thesis by blast
qed

theorem anti_reversal_witness:
  "reachable (heading RIGHT [\<lparr>x = 15, y = 10\<rparr>, \<lparr>x = 14, y = 10\<rparr>, \<lparr>x = 13, y = 10\<rparr>])
   \<and> handleDirectionChange LEFT
         (heading RIGHT [\<lparr>x = 15, y = 10\<rparr>, \<lparr>x = 14, y = 10\<rparr>, \<lparr>x = 13, y = 10\<rparr>])
       = heading RIGHT [\<lparr>x = 15, y = 10\<rparr>, \<lparr>x = 14, y = 10\<rparr>, \<lparr>x = 13, y = 10\<rparr>]
   \<and> gameTick (render (heading RIGHT [\<lparr>x = 15, y = 10\<rparr>, \<lparr>x = 14, y = 10\<rparr>, \<lparr>x = 13, y = 10\<rparr>]))
         (handleDirectionChange LEFT
            (heading RIGHT [\<lparr>x = 15, y = 10\<rparr>, \<lparr>x = 14, y = 10\<rparr>, \<lparr>x = 13, y = 10\<rparr>]))
         (sconst 0)
       = Some (heading RIGHT [\<lparr>x = 16, y = 10\<rparr>, \<lparr>x = 15, y = 10\<rparr>, \<lparr>x = 14, y = 10\<rparr>], sconst 0)
   \<and> directionRef (heading RIGHT [\<lparr>x = 16, y = 10\<rparr>, \<lparr>x = 15, y = 10\<rparr>, \<lparr>x = 14, y = 10\<rparr>]) \<noteq> LEFT"
proof -
  let ?s = "heading RIGHT [\<lparr>x = 15, y = 10\<rparr>, \<lparr>x = 14, y = 10\<rparr>, \<lparr>x = 13, y = 10\<rparr>]"
  let ?s' = "heading RIGHT [\<lparr>x = 16, y = 10\<rparr>, \<lparr>x = 15, y = 10\<rparr>, \<lparr>x = 14, y = 10\<rparr>]"
  have r: "reachable ?s"
    using reachable.init reset_heading by (rule reachable.reset)
  have d: "opposite (directionRef ?s) = LEFT"
    by (simp add: heading_def)
  have h: "handleDirectionChange LEFT ?s = ?s"
    by (simp add: handleDirectionChange_def heading_def)
  have t: "gameTick (render ?s) (handleDirectionChange LEFT ?s) (sconst 0) = Some (?s', sconst 0)"
    unfolding h by (simp add: tick_defs)
  from anti_reversal [of ?s "render ?s" "sconst 0" ?s' "sconst 0"] r t
  have "directionRef ?s' \<noteq> LEFT"
    unfolding d by blast
  with r h t show ?thesis by simp
qed

text \<open>
  C4 as stated fails: the tick commits the buffered direction before it tests for a
  collision. On the top row, heading right with a turn up buffered, the tick ends the game
  and the direction afterwards is \<open>UP\<close>, not \<open>RIGHT\<close>.
\<close>

theorem collision_direction_counterexample:
  "reachable topRow
   \<and> gameTick (render topRow) topRow (sconst 0) \<noteq> None
   \<and> status (fst (the (gameTick (render topRow) topRow (sconst 0)))) = GAME_OVER
   \<and> direction topRow = RIGHT
   \<and> direction (fst (the (gameTick (render topRow) topRow (sconst 0)))) = UP"
  by (simp add: topRow_tick reachable_topRow) (simp add: topRow_def heading_def initialApp_def)

text \<open>
  C4, amended. On a tick that detects a wall or self collision the snake, the food, the
  score and the level (and the theme, board size, speed and buffered direction) are as
  before; the committed direction becomes the buffered direction; the status becomes
  \<open>GAME_OVER\<close>, the game count grows by one and an entry built from the captured score,
  level and game count is appended to the history, cut to the last ten.
\<close>

theorem gameTick_collision_frame:
  assumes "snake s = head # rest"
    and "hitsWall r (moveHead (nextDirectionRef s) head)
         \<or> moveHead (nextDirectionRef s) head \<in> set (snake s)"
  shows "\<exists>s'. gameTick r s rs = Some (s', rs)
           \<and> status s' = GAME_OVER
           \<and> snake s' = snake s \<and> food s' = food s \<and> score s' = score s \<and> level s' = level s
           \<and> direction s' = nextDirectionRef s \<and> directionRef s' = nextDirectionRef s
           \<and> nextDirectionRef s' = nextDirectionRef s
           \<and> theme s' = theme s \<and> boardSize s' = boardSize s \<and> speedRef s' = speedRef s
           \<and> gameCount s' = gameCount s + 1
           \<and> history s' = drop (length (history s) + 1 - 10)
                 (history s @ [\<lparr>gameId = r_gameCount r + 1, entry_score = r_score r,
                                entry_level = r_level r\<rparr>])"
  using assms
  by (auto simp: gameTick_def Let_def gameOver_def occupies_iff)

theorem gameTick_collision_frame_witness:
  "\<exists>s'. gameTick (render topRow) topRow (sconst 0) = Some (s', sconst 0)
      \<and> status s' = GAME_OVER \<and> snake s' = snake topRow \<and> food s' = food topRow
      \<and> score s' = score topRow \<and> level s' = level topRow
      \<and> direction s' = nextDirectionRef topRow"
proof -
  have h1: "snake topRow = \<lparr>x = 16, y = 0\<rparr> # [\<lparr>x = 15, y = 0\<rparr>, \<lparr>x = 15, y = 1\<rparr>]"
    by (simp add: topRow_def heading_def initialApp_def)
  have h2: "hitsWall (render topRow) (moveHead (nextDirectionRef topRow) \<lparr>x = 16, y = 0\<rparr>)
            \<or> moveHead (nextDirectionRef topRow) \<lparr>x = 16, y = 0\<rparr> \<in> set (snake topRow)"
    by (simp add: topRow_def heading_def initialApp_def hitsWall_def)
  from gameTick_collision_frame [OF h1 h2, of "sconst 0"] show ?thesis
    by blast
qed

section \<open>Score, level and food placement\<close>

text \<open>
  C7. On a tick that consumes food (no collision, and the new head is the food the tick
  captured) the score grows by exactly 10, and the level grows by exactly 1 when the new
  score is a multiple of 50 and stays as it was otherwise.
\<close>

theorem gameTick_score_level:
  assumes "gameTick r s rs = Some (s', rs')" and "snake s = head # rest"
    and "\<not> hitsWall r (moveHead (nextDirectionRef s) head)"
    and "moveHead (nextDirectionRef s) head \<notin> set (snake s)"
    and "moveHead (nextDirectionRef s) head = r_food r"
  shows "score s' = score s + 10
         \<and> level s' = (if 50 dvd score s + 10 then level s + 1 else level s)"
  using assms
  by (auto simp: gameTick_def Let_def occupies_iff same_cell_iff smod_50
           split: option.splits prod.splits if_splits)

text \<open>A tick whose new head is not the captured food changes neither score nor level.\<close>

lemma gameTick_no_food:
  assumes "gameTick r s rs = Some (s', rs')" and "snake s = head # rest"
    and "moveHead (nextDirectionRef s) head \<noteq> r_food r"
  shows "score s' = score s \<and> level s' = level s"
  using assms
  by (auto simp: gameTick_def Let_def gameOver_def same_cell_iff
           split: option.splits prod.splits if_splits)

lemma scenario40_tick:
  "gameTick (render (scenario\<lparr>score := 40\<rparr>)) (scenario\<lparr>score := 40\<rparr>) (sconst 0) =
     Some (scenario
             \<lparr>snake := [\<lparr>x = 11, y = 10\<rparr>, \<lparr>x = 10, y = 10\<rparr>, \<lparr>x = 9, y = 10\<rparr>, \<lparr>x = 8, y = 10\<rparr>],
              score := 50, level := 2, food := \<lparr>x = 2, y = 2\<rparr>\<rparr>, sconst 0)"
  apply (simp add: tick_defs)
  apply (subst generateFood_zero)
  apply (simp add: occupies_def signed_modulo_int_def)
  done

theorem gameTick_score_level_witness:
  "score (scenario\<lparr>score := 40\<rparr>) = 40 \<and> level (scenario\<lparr>score := 40\<rparr>) = 1
   \<and> score (fst (the (gameTick (render (scenario\<lparr>score := 40\<rparr>)) (scenario\<lparr>score := 40\<rparr>) (sconst 0)))) = 50
   \<and> level (fst (the (gameTick (render (scenario\<lparr>score := 40\<rparr>)) (scenario\<lparr>score := 40\<rparr>) (sconst 0)))) = 2"
proof -
  let ?s = "scenario\<lparr>score := 40\<rparr>"
  let ?res = "the (gameTick (render ?s) ?s (sconst 0))"
  have h1: "gameTick (render ?s) ?s (sconst 0) = Some (fst ?res, snd ?res)"
    by (simp add: scenario40_tick)
  have h2: "snake ?s = \<lparr>x = 10, y = 10\<rparr> # [\<lparr>x = 9, y = 10\<rparr>, \<lparr>x = 8, y = 10\<rparr>]"
    by (simp add: scenario_def initialApp_def)
  have h3: "\<not> hitsWall (render ?s) (moveHead (nextDirectionRef ?s) \<lparr>x = 10, y = 10\<rparr>)"
    by (simp add: tick_defs)
  have h4: "moveHead (nextDirectionRef ?s) \<lparr>x = 10, y = 10\<rparr> \<notin> set (snake ?s)"
    by (simp add: tick_defs)
  have h5: "moveHead (nextDirectionRef ?s) \<lparr>x = 10, y = 10\<rparr> = r_food (render ?s)"
    by (simp add: tick_defs)
  from gameTick_score_level [OF h1 h2 h3 h4 h5] show ?thesis
    by (simp add: scenario_def initialApp_def)
qed

text \<open>If the loop returns, some round drew a free cell.\<close>

lemma generateFood_loop_draws:
  assumes "generateFood_loop ax ay sn rs = Some res"
  shows "\<exists>k. \<not> occupies sn (draw ax ay rs k)"
proof (rule generateFood_loop.raw_induct
    [where P = "\<lambda>ax ay sn rs res. \<exists>k. \<not> occupies sn (draw ax ay rs k)", OF _ assms])
  fix loop :: "int \<Rightarrow> int \<Rightarrow> Point list \<Rightarrow> real stream \<Rightarrow> (Point \<times> real stream) option"
    and ax ay :: int and sn :: "Point list" and rs :: "real stream"
    and res :: "Point \<times> real stream"
  assume IH: "\<And>ax ay sn rs res. loop ax ay sn rs = Some res \<Longrightarrow> \<exists>k. \<not> occupies sn (draw ax ay rs k)"
    and body: "(let newFood = \<lparr>x = \<lfloor>shd rs * of_int ax\<rfloor> + margin,
                     y = \<lfloor>shd (stl rs) * of_int ay\<rfloor> + margin\<rparr>;
          isCollision = occupies sn newFood
      in if isCollision then loop ax ay sn (stl (stl rs))
         else Some (newFood, stl (stl rs))) = Some res"
  show "\<exists>k. \<not> occupies sn (draw ax ay rs k)"
  proof (cases "occupies sn (draw ax ay rs 0)")
    case False
    then show ?thesis by blast
  next
    case True
    with body have "loop ax ay sn (stl (stl rs)) = Some res"
      by (simp add: draw_def Let_def)
    from IH [OF this] obtain k where "\<not> occupies sn (draw ax ay (stl (stl rs)) k)" ..
    moreover have "draw ax ay (stl (stl rs)) k = draw ax ay rs (Suc k)"
      by (simp add: draw_def)
    ultimately show ?thesis by metis
  qed
qed

text \<open>
  C8. The position that \<open>generateFood\<close> returns is no segment of the snake it was given.
  It returns exactly when some round of the random stream draws a cell that the snake does
  not occupy.
\<close>

theorem generateFood_avoids_snake:
  "(generateFood bs currentSnake rs = Some (newFood, rs') \<longrightarrow>
      (\<forall>segment \<in> set currentSnake. \<not> (x segment = x newFood \<and> y segment = y newFood)))
   \<and> ((\<exists>res. generateFood bs currentSnake rs = Some res) \<longleftrightarrow>
      (\<exists>k. \<not> occupies currentSnake
              (draw (max 1 (width bs div GRID_SIZE - margin * 2))
                    (max 1 (height bs div GRID_SIZE - margin * 2)) rs k)))"
proof (intro conjI impI)
  assume "generateFood bs currentSnake rs = Some (newFood, rs')"
  then have "\<not> occupies currentSnake newFood"
    unfolding generateFood_def Let_def by (auto dest: generateFood_loop_free)
  then show "\<forall>segment \<in> set currentSnake. \<not> (x segment = x newFood \<and> y segment = y newFood)"
    by (simp add: occupies_def list_ex_iff)
next
  show "(\<exists>res. generateFood bs currentSnake rs = Some res) \<longleftrightarrow>
      (\<exists>k. \<not> occupies currentSnake
              (draw (max 1 (width bs div GRID_SIZE - margin * 2))
                    (max 1 (height bs div GRID_SIZE - margin * 2)) rs k))"
    unfolding generateFood_def Let_def
    using generateFood_loop_draws generateFood_loop_returns by blast
qed

theorem generateFood_avoids_snake_witness:
  "generateFood \<lparr>width = 600, height = 400\<rparr> [\<lparr>x = 15, y = 10\<rparr>] (1/2 ## 1/2 ## sconst 0)
     = Some (\<lparr>x = 2, y = 2\<rparr>, sconst 0)
   \<and> \<not> (x \<lparr>x = 15, y = 10\<rparr> = x \<lparr>x = 2, y = 2\<rparr> \<and> y \<lparr>x = 15, y = 10\<rparr> = y \<lparr>x = 2, y = 2\<rparr>)"
proof -
  have h: "generateFood \<lparr>width = 600, height = 400\<rparr> [\<lparr>x = 15, y = 10\<rparr>] (1/2 ## 1/2 ## sconst 0)
     = Some (\<lparr>x = 2, y = 2\<rparr>, sconst 0)"
    apply (simp add: generateFood_def GRID_SIZE_def margin_def)
    apply (subst generateFood_loop.simps)
    apply (simp add: occupies_def margin_def)
    apply (subst generateFood_loop.simps)
    apply (simp add: occupies_def margin_def)
    done
  with generateFood_avoids_snake [of "\<lparr>width = 600, height = 400\<rparr>" "[\<lparr>x = 15, y = 10\<rparr>]"
      "1/2 ## 1/2 ## sconst 0" "\<lparr>x = 2, y = 2\<rparr>" "sconst 0"]
  show ?thesis by simp
qed

section \<open>Properties of the gesture classifier\<close>

text \<open>
  On a new frame with a loaded landmarker and a hand of at least nine landmarks,
  \<open>detectGesture\<close> is \<open>classify\<close> on landmarks 0 and 8.
\<close>

lemma detectGesture_classify:
  assumes "handLandmarker v" and "currentTime \<noteq> lastVideoTime v" and "8 < length landmarks"
  shows "detectGesture v currentTime (Some (landmarks # others)) =
           Inr (classify (landmarks ! 0) (landmarks ! 8), v\<lparr>lastVideoTime := currentTime\<rparr>)"
  using assms by (simp add: detectGesture_def)

text \<open>
  C5 as stated fails: the comparison is \<open>|deltaX| > |deltaY|\<close>, which is false on a
  tie, so a tie takes the vertical branch. With wrist (0.5, 0.5) and index tip (0.3, 0.3)
  both deltas are -0.2, above the threshold, and the result is \<open>UP\<close>.
\<close>

theorem classify_tie_counterexample:
  "\<bar>lm_x \<lparr>lm_x = 3/10, lm_y = 3/10\<rparr> - lm_x \<lparr>lm_x = 5/10, lm_y = 5/10\<rparr>\<bar>
     = \<bar>lm_y \<lparr>lm_x = 3/10, lm_y = 3/10\<rparr> - lm_y \<lparr>lm_x = 5/10, lm_y = 5/10\<rparr>\<bar>
   \<and> \<bar>lm_x \<lparr>lm_x = 3/10, lm_y = 3/10\<rparr> - lm_x \<lparr>lm_x = 5/10, lm_y = 5/10\<rparr>\<bar> > SENSITIVITY
   \<and> classify \<lparr>lm_x = 5/10, lm_y = 5/10\<rparr> \<lparr>lm_x = 3/10, lm_y = 3/10\<rparr> = Some UP"
  by (simp add: classify_def SENSITIVITY_def)

text \<open>
  C5, amended. When \<open>|deltaX| = |deltaY|\<close> the classifier takes the vertical axis: the
  result is \<open>UP\<close> or \<open>DOWN\<close> when the magnitude exceeds the sensitivity (\<open>UP\<close> when
  \<open>deltaY\<close> is below minus the sensitivity) and no direction otherwise; it is never
  \<open>LEFT\<close> or \<open>RIGHT\<close>.
\<close>

theorem classify_tie_vertical:
  assumes "\<bar>lm_x indexTip - lm_x wrist\<bar> = \<bar>lm_y indexTip - lm_y wrist\<bar>"
  shows "classify wrist indexTip =
           (if \<bar>lm_y indexTip - lm_y wrist\<bar> > SENSITIVITY
            then Some (if lm_y indexTip - lm_y wrist < - SENSITIVITY then UP else DOWN)
            else None)
         \<and> classify wrist indexTip \<noteq> Some LEFT \<and> classify wrist indexTip \<noteq> Some RIGHT"
  using assms by (simp add: classify_def Let_def)

theorem classify_tie_vertical_witness:
  "classify \<lparr>lm_x = 5/10, lm_y = 5/10\<rparr> \<lparr>lm_x = 7/10, lm_y = 7/10\<rparr> = Some DOWN"
  using classify_tie_vertical [of "\<lparr>lm_x = 7/10, lm_y = 7/10\<rparr>" "\<lparr>lm_x = 5/10, lm_y = 5/10\<rparr>"]
  by (simp add: SENSITIVITY_def)

text \<open>
  C6. With the horizontal axis taken when \<open>|deltaX| > |deltaY|\<close> and the vertical axis
  otherwise: on the horizontal axis above the sensitivity 0.08 the result is \<open>RIGHT\<close>
  when \<open>deltaX < -0.08\<close> and \<open>LEFT\<close> otherwise; on the vertical axis above it the
  result is \<open>UP\<close> when \<open>deltaY < -0.08\<close> and \<open>DOWN\<close> otherwise; when the magnitude
  on the chosen axis does not exceed 0.08 there is no direction. Wrist (0.5, 0.5) with
  index tip (0.5, 0.3) gives \<open>UP\<close>, with (0.3, 0.5) gives \<open>RIGHT\<close>, with (0.52, 0.52)
  gives no direction.
\<close>

theorem classify_threshold_sign:
  "(\<bar>lm_x indexTip - lm_x wrist\<bar> > \<bar>lm_y indexTip - lm_y wrist\<bar>
      \<and> \<bar>lm_x indexTip - lm_x wrist\<bar> > SENSITIVITY \<longrightarrow>
      classify wrist indexTip =
        Some (if lm_x indexTip - lm_x wrist < - SENSITIVITY then RIGHT else LEFT))
   \<and> (\<not> \<bar>lm_x indexTip - lm_x wrist\<bar> > \<bar>lm_y indexTip - lm_y wrist\<bar>
      \<and> \<bar>lm_y indexTip - lm_y wrist\<bar> > SENSITIVITY \<longrightarrow>
      classify wrist indexTip =
        Some (if lm_y indexTip - lm_y wrist < - SENSITIVITY then UP else DOWN))
   \<and> (\<bar>lm_x indexTip - lm_x wrist\<bar> > \<bar>lm_y indexTip - lm_y wrist\<bar>
      \<and> \<not> \<bar>lm_x indexTip - lm_x wrist\<bar> > SENSITIVITY \<longrightarrow> classify wrist indexTip = None)
   \<and> (\<not> \<bar>lm_x indexTip - lm_x wrist\<bar> > \<bar>lm_y indexTip - lm_y wrist\<bar>
      \<and> \<not> \<bar>lm_y indexTip - lm_y wrist\<bar> > SENSITIVITY \<longrightarrow> classify wrist indexTip = None)
   \<and> SENSITIVITY = 0.08
   \<and> classify \<lparr>lm_x = 0.5, lm_y = 0.5\<rparr> \<lparr>lm_x = 0.5, lm_y = 0.3\<rparr> = Some UP
   \<and> classify \<lparr>lm_x = 0.5, lm_y = 0.5\<rparr> \<lparr>lm_x = 0.3, lm_y = 0.5\<rparr> = Some RIGHT
   \<and> classify \<lparr>lm_x = 0.5, lm_y = 0.5\<rparr> \<lparr>lm_x = 0.52, lm_y = 0.52\<rparr> = None"
  by (simp add: classify_def Let_def SENSITIVITY_def)

theorem classify_threshold_sign_witness:
  "classify \<lparr>lm_x = 0.5, lm_y = 0.5\<rparr> \<lparr>lm_x = 0.9, lm_y = 0.6\<rparr> = Some LEFT
   \<and> classify \<lparr>lm_x = 0.5, lm_y = 0.5\<rparr> \<lparr>lm_x = 0.6, lm_y = 0.9\<rparr> = Some DOWN
   \<and> classify \<lparr>lm_x = 0.5, lm_y = 0.5\<rparr> \<lparr>lm_x = 0.55, lm_y = 0.51\<rparr> = None
   \<and> classify \<lparr>lm_x = 0.5, lm_y = 0.5\<rparr> \<lparr>lm_x = 0.51, lm_y = 0.55\<rparr> = None"
  using classify_threshold_sign [of "\<lparr>lm_x = 0.9, lm_y = 0.6\<rparr>" "\<lparr>lm_x = 0.5, lm_y = 0.5\<rparr>"]
    classify_threshold_sign [of "\<lparr>lm_x = 0.6, lm_y = 0.9\<rparr>" "\<lparr>lm_x = 0.5, lm_y = 0.5\<rparr>"]
    classify_threshold_sign [of "\<lparr>lm_x = 0.55, lm_y = 0.51\<rparr>" "\<lparr>lm_x = 0.5, lm_y = 0.5\<rparr>"]
    classify_threshold_sign [of "\<lparr>lm_x = 0.51, lm_y = 0.55\<rparr>" "\<lparr>lm_x = 0.5, lm_y = 0.5\<rparr>"]
  by (simp add: SENSITIVITY_def)

section \<open>Spawned food and the length of the snake\<close>

text \<open>Both spawn events, the eating tick and the reset, leave the food off the snake.\<close>

lemma gameTick_food_free:
  assumes "gameTick r s rs = Some (s', rs')" and "snake s = head # rest"
    and "\<not> hitsWall r (moveHead (nextDirectionRef s) head)"
    and "moveHead (nextDirectionRef s) head \<notin> set (snake s)"
    and "moveHead (nextDirectionRef s) head = r_food r"
  shows "food s' \<notin> set (snake s')"
proof -
  from assms obtain newFood where
    g: "generateFood (r_boardSize r) (moveHead (nextDirectionRef s) head # snake s) rs = Some (newFood, rs')"
    and s': "snake s' = moveHead (nextDirectionRef s) head # snake s" "food s' = newFood"
    by (auto simp: gameTick_def Let_def occupies_iff same_cell_iff
           split: option.splits prod.splits if_splits)
  from g have "\<not> occupies (moveHead (nextDirectionRef s) head # snake s) newFood"
    unfolding generateFood_def Let_def by (auto dest: generateFood_loop_free)
  with s' show ?thesis by (simp add: occupies_iff)
qed

lemma resetGame_food_free:
  assumes "resetGame r s rs = Some (s', rs')"
  shows "food s' \<notin> set (snake s')"
proof -
  from assms obtain sn where
    g: "generateFood (r_boardSize r) sn rs = Some (food s', rs')" and s': "snake s' = sn"
    by (auto simp: resetGame_def Let_def split: option.splits prod.splits)
  from g have "\<not> occupies sn (food s')"
    unfolding generateFood_def Let_def by (auto dest: generateFood_loop_free)
  with s' show ?thesis by (simp add: occupies_iff)
qed

lemma gameTick_snake_length:
  assumes "gameTick r s rs = Some (s', rs')"
  shows "length (snake s) \<le> length (snake s')"
  using assms
  by (auto simp: gameTick_def Let_def gameOver_def
           split: list.splits option.splits prod.splits if_splits)

lemma reachable_snake: "reachable s \<Longrightarrow> snake s \<noteq> []"
proof (induction rule: reachable.induct)
  case init
  show ?case by (simp add: initialApp_def)
next
  case (reset s r rs s' rs')
  from resetGame_fields [OF reset.hyps(2)] show ?case by auto
next
  case (input s newDir)
  then show ?case by (simp add: handleDirectionChange_fields)
next
  case (tick s r rs s' rs')
  from gameTick_snake_length [OF tick.hyps(2)] tick.IH show ?case by auto
next
  case (resize s bs)
  then show ?case by simp
next
  case (retheme s t)
  then show ?case by simp
qed

text \<open>
  C10. The snake is never empty: \<open>resetGame\<close> sets a snake of exactly three segments; a
  tick never shortens the snake and lengthens it when food is eaten; so in every reachable
  state the snake has a head for the next tick to read.
\<close>

theorem snake_never_empty:
  "(resetGame r s rs = Some (s', rs') \<longrightarrow> length (snake s') = 3)
   \<and> (gameTick r s rs = Some (s', rs') \<longrightarrow>
        length (snake s) \<le> length (snake s')
        \<and> (\<forall>head rest. snake s = head # rest
              \<and> \<not> hitsWall r (moveHead (nextDirectionRef s) head)
              \<and> moveHead (nextDirectionRef s) head \<notin> set (snake s)
              \<and> moveHead (nextDirectionRef s) head = r_food r
              \<longrightarrow> length (snake s) < length (snake s')))
   \<and> (reachable s \<longrightarrow> (\<exists>head rest. snake s = head # rest))"
proof (intro conjI impI)
  assume "resetGame r s rs = Some (s', rs')"
  from resetGame_fields [OF this] show "length (snake s') = 3" by simp
next
  assume "gameTick r s rs = Some (s', rs')"
  then show "length (snake s) \<le> length (snake s')" by (rule gameTick_snake_length)
next
  assume "gameTick r s rs = Some (s', rs')"
  then show "\<forall>head rest. snake s = head # rest
              \<and> \<not> hitsWall r (moveHead (nextDirectionRef s) head)
              \<and> moveHead (nextDirectionRef s) head \<notin> set (snake s)
              \<and> moveHead (nextDirectionRef s) head = r_food r
              \<longrightarrow> length (snake s) < length (snake s')"
    by (auto simp: gameTick_def Let_def occupies_iff same_cell_iff
           split: option.splits prod.splits if_splits)
next
  assume "reachable s"
  then have "snake s \<noteq> []" by (rule reachable_snake)
  then show "\<exists>head rest. snake s = head # rest" by (cases "snake s") simp_all
qed

theorem snake_never_empty_witness:
  "length (snake (fst (the (resetGame (render initialApp) initialApp (sconst 0))))) = 3
   \<and> length (snake scenario) < length (snake (fst (the (gameTick (render scenario) scenario (sconst 0)))))
   \<and> (\<exists>head rest. snake initialApp = head # rest)"
proof -
  let ?reset = "the (resetGame (render initialApp) initialApp (sconst 0))"
  let ?tick = "the (gameTick (render scenario) scenario (sconst 0))"
  have h1: "resetGame (render initialApp) initialApp (sconst 0) = Some (fst ?reset, snd ?reset)"
    by (simp add: reset_heading)
  have h2: "gameTick (render scenario) scenario (sconst 0) = Some (fst ?tick, snd ?tick)"
    by (simp add: scenario_tick)
  have h3: "snake scenario = \<lparr>x = 10, y = 10\<rparr> # [\<lparr>x = 9, y = 10\<rparr>, \<lparr>x = 8, y = 10\<rparr>]
            \<and> \<not> hitsWall (render scenario) (moveHead (nextDirectionRef scenario) \<lparr>x = 10, y = 10\<rparr>)
            \<and> moveHead (nextDirectionRef scenario) \<lparr>x = 10, y = 10\<rparr> \<notin> set (snake scenario)
            \<and> moveHead (nextDirectionRef scenario) \<lparr>x = 10, y = 10\<rparr> = r_food (render scenario)"
    by (simp add: tick_defs)
  from snake_never_empty [of "render initialApp" initialApp "sconst 0" "fst ?reset" "snd ?reset"]
    h1 reachable.init
  have "length (snake (fst ?reset)) = 3 \<and> (\<exists>head rest. snake initialApp = head # rest)"
    by blast
  moreover from snake_never_empty [of "render scenario" scenario "sconst 0" "fst ?tick" "snd ?tick"]
    h2 h3
  have "length (snake scenario) < length (snake (fst ?tick))"
    by blast
  ultimately show ?thesis by blast
qed

section \<open>Properties of the theme provider\<close>

lemma completeTheme_DEFAULT: "completeTheme DEFAULT_THEME"
  by (simp add: completeTheme_def DEFAULT_THEME_def)

text \<open>
  C9 as stated fails. A response without text is answered with \<open>DEFAULT_THEME\<close> itself,
  whose name is still \<open>Neon Genesis\<close> and says nothing of offline mode; and a response
  whose text parses is returned as parsed, so the text \<open>{}\<close> gives an object with no
  theme field at all.
\<close>

theorem generateLevelTheme_counterexample:
  "generateLevelTheme Map.empty 2 ''Neon Genesis'' (Resolves None) = DEFAULT_THEME
   \<and> property (generateLevelTheme Map.empty 2 ''Neon Genesis'' (Resolves None)) ''name''
       = Some (JStr ''Neon Genesis'')
   \<and> \<not> completeTheme
         (generateLevelTheme [''{}'' \<mapsto> JObj []] 2 ''Neon Genesis'' (Resolves (Some ''{}'')))"
  by (simp add: generateLevelTheme_def completeTheme_def) (simp add: DEFAULT_THEME_def)

text \<open>The offline fallback, written out.\<close>

lemma offline_eq:
  "setProperty ''storyText'' (JStr ''Uplink failed. Running local simulation.'')
     (setProperty ''name'' (JStr nm) DEFAULT_THEME) =
   JObj [(''name'', JStr nm),
         (''gridColor'', JStr ''#1f2937''),
         (''snakeHeadColor'', JStr ''#00ffcc''),
         (''snakeBodyColor'', JStr ''#00ccaa''),
         (''foodColor'', JStr ''#ff00ff''),
         (''backgroundColor'', JStr ''#000000''),
         (''glowColor'', JStr ''rgba(0, 255, 204, 0.5)''),
         (''storyText'', JStr ''Uplink failed. Running local simulation.'')]"
  by (simp add: DEFAULT_THEME_def)

text \<open>
  C9, amended. For every level and previous theme name: when the request rejects, or the
  response has a text that \<open>JSON.parse\<close> rejects, \<open>generateLevelTheme\<close> returns the
  default theme with the name \<open>Level N (Offline Mode)\<close> and the story
  \<open>Uplink failed. Running local simulation.\<close>, a complete theme whose other six fields
  are the default's; when the response has no text (absent or empty) it returns the default
  theme unchanged; when the text parses, it returns the parsed value as it is.
\<close>

theorem generateLevelTheme_fallback:
  "(response = Rejects \<or> (\<exists>t. response = Resolves (Some t) \<and> t \<noteq> [] \<and> JSON_parse t = None) \<longrightarrow>
      generateLevelTheme JSON_parse lvl previousThemeName response =
        JObj [(''name'', JStr (''Level '' @ numberToString lvl @ '' (Offline Mode)'')),
              (''gridColor'', JStr ''#1f2937''),
              (''snakeHeadColor'', JStr ''#00ffcc''),
              (''snakeBodyColor'', JStr ''#00ccaa''),
              (''foodColor'', JStr ''#ff00ff''),
              (''backgroundColor'', JStr ''#000000''),
              (''glowColor'', JStr ''rgba(0, 255, 204, 0.5)''),
              (''storyText'', JStr ''Uplink failed. Running local simulation.'')]
      \<and> completeTheme (generateLevelTheme JSON_parse lvl previousThemeName response)
      \<and> (\<forall>k. k \<noteq> ''name'' \<and> k \<noteq> ''storyText'' \<longrightarrow>
             property (generateLevelTheme JSON_parse lvl previousThemeName response) k
               = property DEFAULT_THEME k))
   \<and> (response = Resolves None \<or> response = Resolves (Some []) \<longrightarrow>
        generateLevelTheme JSON_parse lvl previousThemeName response = DEFAULT_THEME)
   \<and> (\<forall>t v. response = Resolves (Some t) \<and> t \<noteq> [] \<and> JSON_parse t = Some v \<longrightarrow>
        generateLevelTheme JSON_parse lvl previousThemeName response = v)"
proof -
  let ?offline = "JObj [(''name'', JStr (''Level '' @ numberToString lvl @ '' (Offline Mode)'')),
              (''gridColor'', JStr ''#1f2937''),
              (''snakeHeadColor'', JStr ''#00ffcc''),
              (''snakeBodyColor'', JStr ''#00ccaa''),
              (''foodColor'', JStr ''#ff00ff''),
              (''backgroundColor'', JStr ''#000000''),
              (''glowColor'', JStr ''rgba(0, 255, 204, 0.5)''),
              (''storyText'', JStr ''Uplink failed. Running local simulation.'')]"
  have c: "completeTheme ?offline"
    by (simp add: completeTheme_def)
  have p: "\<forall>k. k \<noteq> ''name'' \<and> k \<noteq> ''storyText'' \<longrightarrow> property ?offline k = property DEFAULT_THEME k"
    by (simp add: DEFAULT_THEME_def)
  have a: "generateLevelTheme JSON_parse lvl previousThemeName response = ?offline"
    if "response = Rejects \<or> (\<exists>t. response = Resolves (Some t) \<and> t \<noteq> [] \<and> JSON_parse t = None)"
    using that unfolding generateLevelTheme_def Let_def offline_eq by auto
  have b: "generateLevelTheme JSON_parse lvl previousThemeName response = DEFAULT_THEME"
    if "response = Resolves None \<or> response = Resolves (Some [])"
    using that unfolding generateLevelTheme_def Let_def by auto
  have d: "\<forall>t v. response = Resolves (Some t) \<and> t \<noteq> [] \<and> JSON_parse t = Some v \<longrightarrow>
        generateLevelTheme JSON_parse lvl previousThemeName response = v"
    unfolding generateLevelTheme_def Let_def by auto
  from a b c p d show ?thesis by presburger
qed

theorem generateLevelTheme_fallback_witness:
  "generateLevelTheme Map.empty 3 ''Neon Genesis'' Rejects =
        JObj [(''name'', JStr ''Level 3 (Offline Mode)''),
              (''gridColor'', JStr ''#1f2937''),
              (''snakeHeadColor'', JStr ''#00ffcc''),
              (''snakeBodyColor'', JStr ''#00ccaa''),
              (''foodColor'', JStr ''#ff00ff''),
              (''backgroundColor'', JStr ''#000000''),
              (''glowColor'', JStr ''rgba(0, 255, 204, 0.5)''),
              (''storyText'', JStr ''Uplink failed. Running local simulation.'')]
   \<and> generateLevelTheme Map.empty 3 ''Neon Genesis'' (Resolves (Some ''not json'')) =
       generateLevelTheme Map.empty 3 ''Neon Genesis'' Rejects
   \<and> generateLevelTheme Map.empty 3 ''Neon Genesis'' (Resolves None) = DEFAULT_THEME"
  using generateLevelTheme_fallback [of Rejects Map.empty 3 "''Neon Genesis''"]
    generateLevelTheme_fallback [of "Resolves (Some ''not json'')" Map.empty 3 "''Neon Genesis''"]
    generateLevelTheme_fallback [of "Resolves None" Map.empty 3 "''Neon Genesis''"]
  by (simp add: numberToString_def)

end
